theory Spec2Isabelle
  imports Main
begin

section \<open>libs/hwui/Readback.h: the result codes\<close>

text \<open>
  \<^verbatim>\<open>enum class CopyResult\<close> of Readback.h, lines 31 to 38. The header's comment
  "Keep in sync with PixelCopy.java codes" makes the explicit values part of the interface,
  so the embedding keeps them beside the constructors.
\<close>

datatype CopyResult =
    Success
  | UnknownError
  | Timeout
  | SourceEmpty
  | SourceInvalid
  | DestinationInvalid

text \<open>The enumerator values, as the header assigns them.\<close>

fun CopyResult_value :: "CopyResult \<Rightarrow> int" where
  "CopyResult_value Success = 0"
| "CopyResult_value UnknownError = 1"
| "CopyResult_value Timeout = 2"
| "CopyResult_value SourceEmpty = 3"
| "CopyResult_value SourceInvalid = 4"
| "CopyResult_value DestinationInvalid = 5"

text \<open>The enumerators in declaration order.\<close>

definition allCopyResults :: "CopyResult list" where
  "allCopyResults =
     [Success, UnknownError, Timeout, SourceEmpty, SourceInvalid, DestinationInvalid]"

section \<open>libs/hwui/Readback.h: the two copy operations\<close>

text \<open>
  \<^verbatim>\<open>class Readback\<close> (lines 40 to 54) declares two static member functions,
  \<^verbatim>\<open>copySurfaceInto(RenderThread&, Surface&, const Rect&, SkBitmap*)\<close> and
  \<^verbatim>\<open>copyTextureLayerInto(RenderThread&, Layer&, SkBitmap*)\<close>, both returning
  \<^typ>\<open>CopyResult\<close>. The header gives them no body, and neither the bodies nor the types of
  their parameters are among the sources, so which code a call returns, in which order
  failure conditions are tested and what is written into the bitmap are not fixed by
  anything here. No definition is given for them: a function written down without the body
  would decide those questions by itself.
\<close>

section \<open>Properties of the result codes\<close>

lemma CopyResult_UNIV:
  "(UNIV :: CopyResult set) =
     {Success, UnknownError, Timeout, SourceEmpty, SourceInvalid, DestinationInvalid}"
proof -
  have "c \<in> {Success, UnknownError, Timeout, SourceEmpty, SourceInvalid, DestinationInvalid}"
    for c :: CopyResult
    by (cases c) simp_all
  then show ?thesis by blast
qed

text \<open>
  C1. \<^typ>\<open>CopyResult\<close> is a closed enumeration of exactly six members, and their numeric
  values are Success = 0, UnknownError = 1, Timeout = 2, SourceEmpty = 3, SourceInvalid = 4,
  DestinationInvalid = 5: six distinct codes that fill the range 0 to 5.
\<close>

theorem CopyResult_values_pinned:
  "CopyResult_value Success = 0
   \<and> CopyResult_value UnknownError = 1
   \<and> CopyResult_value Timeout = 2
   \<and> CopyResult_value SourceEmpty = 3
   \<and> CopyResult_value SourceInvalid = 4
   \<and> CopyResult_value DestinationInvalid = 5
   \<and> (UNIV :: CopyResult set) = set allCopyResults
   \<and> distinct allCopyResults
   \<and> length allCopyResults = 6
   \<and> map CopyResult_value allCopyResults = [0, 1, 2, 3, 4, 5]"
  by (simp add: CopyResult_UNIV allCopyResults_def)

end
